theory Spec2Isabelle
  imports Main
begin

chapter \<open>The model\<close>

section \<open>JavaScript values and promises\<close>

text \<open>
  The values that a polling function resolves with, and the reasons a promise is
  rejected with. \<open>JError m\<close> is an \<^verbatim>\<open>Error\<close> object whose message is \<open>m\<close>;
  \<open>JObj n\<close> is any other object, known by its identity.
\<close>

datatype jsval =
    JUndefined
  | JNull
  | JBool bool
  | JNum int
  | JNaN
  | JStr string
  | JError string
  | JObj nat

text \<open>The truthiness test of \<^verbatim>\<open>if (result)\<close>.\<close>

fun truthy :: "jsval \<Rightarrow> bool" where
  "truthy JUndefined = False"
| "truthy JNull = False"
| "truthy (JBool b) = b"
| "truthy (JNum n) = (n \<noteq> 0)"
| "truthy JNaN = False"
| "truthy (JStr s) = (s \<noteq> [])"
| "truthy (JError m) = True"
| "truthy (JObj n) = True"

text \<open>
  The final state of a promise: fulfilled with a value, rejected with a reason, or never
  settled.
\<close>

datatype 'a promise = Fulfilled 'a | Rejected jsval | Pending

section \<open>The bounded poller: \<^verbatim>\<open>src/wait-for.js\<close>\<close>

text \<open>
  The options object. A field that is \<open>None\<close> is absent from the object. Timeouts are
  integers of milliseconds, the unit of \<^verbatim>\<open>new Date().getTime()\<close>.
\<close>

record options =
  timeout :: "int option"
  errorMsg :: "string option"

text \<open>
  What \<^verbatim>\<open>waitFor\<close> observes of its surroundings: the value of each reading of the
  clock, in the order the readings are taken, and the final state of the promise that each
  invocation of \<^verbatim>\<open>conditionFn\<close> returns, in the order of the invocations. The
  function is expected to return a promise at every invocation.
\<close>

record env =
  clock :: "nat \<Rightarrow> int"
  conditionFn :: "nat \<Rightarrow> jsval promise"

text \<open>How many clock readings and how many invocations have been made so far.\<close>

record world =
  ticks :: nat
  calls :: nat

text \<open>
  \<^verbatim>\<open>if (!options) { options = {}; }\<close>,
  \<^verbatim>\<open>timeout = 'timeout' in options ? options.timeout : 1000;\<close> and
  \<^verbatim>\<open>errorMsg = options.errorMsg || 'Timeout';\<close>
\<close>

definition options_or_empty :: "options option \<Rightarrow> options" where
  "options_or_empty opts =
     (case opts of None \<Rightarrow> \<lparr>timeout = None, errorMsg = None\<rparr> | Some o' \<Rightarrow> o')"

definition timeout_of :: "options option \<Rightarrow> int" where
  "timeout_of opts =
     (case timeout (options_or_empty opts) of Some t \<Rightarrow> t | None \<Rightarrow> 1000)"

definition errorMsg_of :: "options option \<Rightarrow> string" where
  "errorMsg_of opts =
     (case errorMsg (options_or_empty opts) of
        None \<Rightarrow> ''Timeout''
      | Some m \<Rightarrow> if m = [] then ''Timeout'' else m)"

text \<open>
  \<^verbatim>\<open>waitFor(conditionFn, options)\<close>. The result is the final state of the returned
  promise with the counters after the last step; \<open>None\<close> is a polling sequence that never
  ends.
\<close>

partial_function (option) waitFor ::
  "env \<Rightarrow> options option \<Rightarrow> world \<Rightarrow> (jsval promise \<times> world) option"
where
  "waitFor e opts w =
     (let start = clock e (ticks w);
          w1 = w\<lparr>ticks := Suc (ticks w)\<rparr>;
          timeout = timeout_of opts;
          errorMsg = errorMsg_of opts;
          w2 = w1\<lparr>calls := Suc (calls w1)\<rparr>
      in case conditionFn e (calls w1) of
           Pending \<Rightarrow> Some (Pending, w2)
         | Rejected reason \<Rightarrow> Some (Rejected reason, w2)
         | Fulfilled result \<Rightarrow>
             if truthy result then Some (Fulfilled JUndefined, w2)
             else
               let delay = clock e (ticks w2) - start;
                   w3 = w2\<lparr>ticks := Suc (ticks w2)\<rparr>;
                   remaining = timeout - delay
               in if remaining \<le> 0 then Some (Rejected (JError errorMsg), w3)
                  else waitFor e (Some \<lparr>timeout = Some remaining, errorMsg = Some errorMsg\<rparr>) w3)"


declare waitFor.simps [code]

subsection \<open>Notions for stating properties of a polling sequence\<close>

text \<open>An invocation whose promise is fulfilled with a falsy value: the only case that is retried.\<close>

definition falsy :: "jsval promise \<Rightarrow> bool" where
  "falsy p = (case p of Fulfilled v \<Rightarrow> \<not> truthy v | Rejected r \<Rightarrow> False | Pending \<Rightarrow> False)"

text \<open>
  Attempt \<open>i\<close> of a polling sequence that starts with \<open>t0\<close> clock readings already taken
  reads the clock at \<open>t0 + 2 * i\<close> (\<^verbatim>\<open>start\<close>) and, after a falsy result, at
  \<open>t0 + 2 * i + 1\<close> (for \<^verbatim>\<open>delay\<close>). \<open>budget e t0 T i\<close> is the
  \<^verbatim>\<open>timeout\<close> that attempt \<open>i\<close> works with when the sequence was started with timeout
  \<open>T\<close>: the \<^verbatim>\<open>remaining\<close> that the attempt before it computed.
\<close>

fun budget :: "env \<Rightarrow> nat \<Rightarrow> int \<Rightarrow> nat \<Rightarrow> int" where
  "budget e t0 T 0 = T"
| "budget e t0 T (Suc i) =
     budget e t0 T i - (clock e (t0 + 2 * i + 1) - clock e (t0 + 2 * i))"

text \<open>The \<open>k\<close> invocations from number \<open>c0\<close> on all resolve falsy.\<close>

definition all_falsy :: "env \<Rightarrow> nat \<Rightarrow> nat \<Rightarrow> bool" where
  "all_falsy e c0 k = list_all (\<lambda>i. falsy (conditionFn e (c0 + i))) [0..<k]"

text \<open>Each of the first \<open>k\<close> attempts leaves a positive \<^verbatim>\<open>remaining\<close>.\<close>

definition within_budget :: "env \<Rightarrow> nat \<Rightarrow> int \<Rightarrow> nat \<Rightarrow> bool" where
  "within_budget e t0 T k = list_all (\<lambda>i. 0 < budget e t0 T (Suc i)) [0..<k]"

text \<open>
  The clock shows the same value when it is read for \<^verbatim>\<open>delay\<close> in one attempt and
  for \<^verbatim>\<open>start\<close> in the retry that follows, for each of the first \<open>k\<close> attempts.
\<close>

definition no_drift :: "env \<Rightarrow> nat \<Rightarrow> nat \<Rightarrow> bool" where
  "no_drift e t0 k = list_all (\<lambda>i. clock e (t0 + 2 * i + 2) = clock e (t0 + 2 * i + 1)) [0..<k]"

text \<open>
  The time observed after the result of each of the first \<open>k\<close> attempts is before the first
  start time plus \<open>T\<close>.
\<close>

definition before_deadline :: "env \<Rightarrow> nat \<Rightarrow> int \<Rightarrow> nat \<Rightarrow> bool" where
  "before_deadline e t0 T k = list_all (\<lambda>i. clock e (t0 + 2 * i + 1) < clock e t0 + T) [0..<k]"

text \<open>The options object that a retry is called with, and the counters after \<open>k\<close> retries.\<close>

definition retry_options :: "options option \<Rightarrow> int \<Rightarrow> options option" where
  "retry_options opts r = Some \<lparr>timeout = Some r, errorMsg = Some (errorMsg_of opts)\<rparr>"

definition after :: "world \<Rightarrow> nat \<Rightarrow> world" where
  "after w k = \<lparr>ticks = ticks w + 2 * k, calls = calls w + k\<rparr>"

section \<open>The selector-path resolver: \<^verbatim>\<open>Driver.prototype._$\<close> in \<^verbatim>\<open>src/index.js\<close>\<close>

text \<open>
  A path, or an item of a path array: a string of dot-separated keys, a number, a nested
  array, or \<^verbatim>\<open>undefined\<close> (also what reading an array beyond its end gives).
  The context label \<^verbatim>\<open>pathContext\<close> is of the same type, since the code assigns
  \<^verbatim>\<open>firstPart\<close> to it as it is.
\<close>

datatype pathv = PStr string | PNum int | PUndefined | PArr "pathv list"

text \<open>Element handles, known by their identity.\<close>

type_synonym element = nat

text \<open>The scope of a lookup: the command object \<^verbatim>\<open>this._cmd\<close> or an element.\<close>

datatype ctx = Cmd | Element element

text \<open>
  What the promise returned by \<^verbatim>\<open>_$\<close> is fulfilled with: the array of elements
  of a lookup, or one element.
\<close>

datatype found = Els "element list" | El element

text \<open>
  A call returns a promise or throws before it returns one. \<open>Unmodelled\<close> stands for
  calls that this model does not follow: an index that is neither a number nor
  \<^verbatim>\<open>undefined\<close>, where \<^verbatim>\<open>els[index]\<close> is a property lookup by name.
\<close>

datatype 'a call = Returns "'a promise" | Throws jsval | Unmodelled

text \<open>
  The collaborators of the resolver. \<open>buildSelector\<close> is
  \<^verbatim>\<open>buildSelector(this._selectors, pathContext, path)\<close> with the selector table fixed;
  it gives a selector or throws. \<open>findAllByCssSelector\<close> is the lookup of the automation
  client; its answer may depend on how many lookups were issued before it.
\<close>

record driver =
  buildSelector :: "pathv \<Rightarrow> pathv \<Rightarrow> jsval + string"
  findAllByCssSelector :: "nat \<Rightarrow> ctx \<Rightarrow> string \<Rightarrow> element list promise"

text \<open>Numbers and arrays as strings, as string concatenation makes them.\<close>

fun digits :: "nat \<Rightarrow> string" where
  "digits n =
     (if n < 10 then [''0123456789'' ! n]
      else digits (n div 10) @ [''0123456789'' ! (n mod 10)])"

definition number_string :: "int \<Rightarrow> string" where
  "number_string i = (if i < 0 then CHR ''-'' # digits (nat (- i)) else digits (nat i))"

fun join :: "string list \<Rightarrow> string" where
  "join [] = []"
| "join [s] = s"
| "join (s # t # ss) = s @ '','' @ join (t # ss)"

fun toString :: "pathv \<Rightarrow> string" where
  "toString (PStr s) = s"
| "toString (PNum i) = number_string i"
| "toString PUndefined = ''undefined''"
| "toString (PArr items) =
     join (map (\<lambda>x. if x = PUndefined then [] else toString x) items)"

text \<open>The truthiness test of \<^verbatim>\<open>if (pathContext)\<close>.\<close>

fun truthy_path :: "pathv \<Rightarrow> bool" where
  "truthy_path (PStr s) = (s \<noteq> [])"
| "truthy_path (PNum i) = (i \<noteq> 0)"
| "truthy_path PUndefined = False"
| "truthy_path (PArr items) = True"

text \<open>\<^verbatim>\<open>path[n]\<close>.\<close>

definition item :: "pathv list \<Rightarrow> nat \<Rightarrow> pathv" where
  "item items n = (if n < length items then items ! n else PUndefined)"

text \<open>\<^verbatim>\<open>els[index]\<close> for a number; \<open>None\<close> is \<^verbatim>\<open>undefined\<close>.\<close>

fun at_index :: "found \<Rightarrow> int \<Rightarrow> element option" where
  "at_index (Els els) i = (if 0 \<le> i \<and> i < int (length els) then Some (els ! nat i) else None)"
| "at_index (El e) i = None"

text \<open>\<^verbatim>\<open>els.length\<close> in a string concatenation.\<close>

fun length_string :: "found \<Rightarrow> string" where
  "length_string (Els els) = digits (length els)"
| "length_string (El e) = ''undefined''"

text \<open>
  \<^verbatim>\<open>if (pathContext) { pathContext += '.' + firstPart; } else { pathContext = firstPart; }\<close>
\<close>

definition extend_label :: "pathv \<Rightarrow> pathv \<Rightarrow> pathv" where
  "extend_label pathContext firstPart =
     (if truthy_path pathContext then PStr (toString pathContext @ ''.'' @ toString firstPart)
      else firstPart)"

text \<open>The message of the error thrown when \<^verbatim>\<open>els[index]\<close> is missing.\<close>

definition too_few :: "int \<Rightarrow> pathv \<Rightarrow> found \<Rightarrow> string" where
  "too_few index pathContext els =
     ''Expected at least '' @ number_string (index + 1) @ '' elements at region \"'' @
     toString pathContext @ ''\", but only found '' @ length_string els @ ''.''"

text \<open>
  A call made inside a \<^verbatim>\<open>then\<close> callback: what it throws rejects the promise that
  \<^verbatim>\<open>then\<close> returned.
\<close>

fun in_then :: "found call \<times> nat \<Rightarrow> found call \<times> nat" where
  "in_then (Throws r, s) = (Returns (Rejected r), s)"
| "in_then (c, s) = (c, s)"

text \<open>
  \<^verbatim>\<open>Driver.prototype._$ = function(path, context, pathContext)\<close>. The last argument
  and the second component of the result count the lookups issued so far.
\<close>

function dollar ::
  "driver \<Rightarrow> pathv \<Rightarrow> ctx option \<Rightarrow> pathv \<Rightarrow> nat \<Rightarrow> found call \<times> nat"
where
  "dollar D path context0 pathContext s =
     (let ctx = (case context0 of None \<Rightarrow> Cmd | Some c \<Rightarrow> c) in
      case path of
        PArr items \<Rightarrow>
          (let firstPart = item items 0;
               index = item items 1;
               rest = drop 2 items
           in case dollar D firstPart (Some ctx) pathContext s of
                (Returns (Fulfilled els), s1) \<Rightarrow>
                  (case index of
                     PUndefined \<Rightarrow> (Returns (Fulfilled els), s1)
                   | PNum i \<Rightarrow>
                       (let el = at_index els i;
                            pathContext = extend_label pathContext firstPart
                        in case el of
                             None \<Rightarrow> (Returns (Rejected (JError (too_few i pathContext els))), s1)
                           | Some e \<Rightarrow>
                               if rest = [] then (Returns (Fulfilled (El e)), s1)
                               else in_then (dollar D (PArr rest) (Some (Element e)) pathContext s1))
                   | _ \<Rightarrow> (Unmodelled, s1))
              | (c, s1) \<Rightarrow> (c, s1))
      | _ \<Rightarrow>
          (case buildSelector D pathContext path of
             Inl r \<Rightarrow> (Throws r, s)
           | Inr selector \<Rightarrow>
               (Returns (map_promise Els (findAllByCssSelector D s ctx selector)), Suc s)))"
  by pat_completeness auto
termination
proof -
  have first: "size (xs ! 0) < Suc (size_list size xs)" if "xs \<noteq> []" for xs :: "pathv list"
    using that by (cases xs) simp_all
  have rest: "size_list size (drop 2 xs) < size_list size xs" if "\<not> length xs \<le> 2"
    for xs :: "pathv list"
  proof (cases xs)
    case Nil
    with that show ?thesis by simp
  next
    case (Cons x ys)
    with that show ?thesis by (cases ys) simp_all
  qed
  show ?thesis
    by (relation "measure (\<lambda>(D, path, c, pathContext, s). size path)")
       (auto simp: item_def first rest)
qed

declare dollar.simps [simp del]

subsection \<open>Example surroundings\<close>

definition always_falsy :: "nat \<Rightarrow> jsval promise" where
  "always_falsy n = Fulfilled (JBool False)"

text \<open>The clock advances by one millisecond between any two readings.\<close>

definition env_ticking :: env where
  "env_ticking = \<lparr>clock = (\<lambda>n. int n), conditionFn = always_falsy\<rparr>"

text \<open>The third invocation is rejected.\<close>

definition env_reject3 :: env where
  "env_reject3 =
     \<lparr>clock = (\<lambda>n. int n),
      conditionFn = (\<lambda>n. if n < 2 then Fulfilled (JBool False) else Rejected (JStr ''boom''))\<rparr>"

text \<open>The third invocation resolves to \<^verbatim>\<open>true\<close>.\<close>

definition env_true3 :: env where
  "env_true3 = \<lparr>clock = (\<lambda>n. int n), conditionFn = (\<lambda>n. Fulfilled (JBool (n = 2)))\<rparr>"

text \<open>The first invocation resolves to a truthy value.\<close>

definition env_true1 :: env where
  "env_true1 = \<lparr>clock = (\<lambda>n. int n), conditionFn = (\<lambda>n. Fulfilled (JStr ''ready''))\<rparr>"





definition w0 :: world where
  "w0 = \<lparr>ticks = 0, calls = 0\<rparr>"

text \<open>
  A page where the region \<^verbatim>\<open>a\<close> has five elements, the third of which holds two
  elements of the region \<^verbatim>\<open>b\<close>; one more element of \<^verbatim>\<open>b\<close> lies elsewhere.
\<close>

definition D0 :: driver where
  "D0 =
     \<lparr>buildSelector =
        (\<lambda>pathContext path.
           case path of PStr s \<Rightarrow> Inr (CHR ''.'' # s) | _ \<Rightarrow> Inl (JError ''TypeError'')),
      findAllByCssSelector =
        (\<lambda>n c selector.
           if selector = ''.a'' \<and> c = Cmd then Fulfilled [10, 11, 12, 13, 14]
           else if selector = ''.b'' \<and> c = Element 12 then Fulfilled [20, 21]
           else if selector = ''.b'' \<and> c = Cmd then Fulfilled [20, 21, 30]
           else Fulfilled [])\<rparr>"

chapter \<open>Properties\<close>

section \<open>The bounded poller\<close>

subsection \<open>Steps of a polling sequence\<close>

lemma errorMsg_of_nonempty: "errorMsg_of opts \<noteq> []"
  by (simp add: errorMsg_of_def split: option.splits)

lemma timeout_of_retry [simp]: "timeout_of (retry_options opts r) = r"
  by (simp add: timeout_of_def retry_options_def options_or_empty_def)

lemma errorMsg_of_retry [simp]: "errorMsg_of (retry_options opts r) = errorMsg_of opts"
  using errorMsg_of_nonempty [of opts]
  by (simp add: errorMsg_of_def retry_options_def options_or_empty_def)

lemma retry_retry [simp]: "retry_options (retry_options opts r) r' = retry_options opts r'"
  by (simp add: retry_options_def [of "retry_options opts r"]) (simp add: retry_options_def)

lemma after_0 [simp]: "after w 0 = w"
  by (cases w) (simp add: after_def)

lemma after_after [simp]: "after (after w j) k = after w (j + k)"
  by (simp add: after_def)

lemma after_simps [simp]:
  "ticks (after w k) = ticks w + 2 * k" "calls (after w k) = calls w + k"
  by (simp_all add: after_def)

lemma all_falsy_Suc:
  "all_falsy e c0 (Suc k) = (all_falsy e c0 k \<and> falsy (conditionFn e (c0 + k)))"
  by (simp add: all_falsy_def)

lemma within_budget_Suc:
  "within_budget e t0 T (Suc k) = (within_budget e t0 T k \<and> 0 < budget e t0 T (Suc k))"
  by (simp add: within_budget_def)

lemma list_all_upt_numeral:
  "list_all P [0..<numeral n] = (list_all P [0..<pred_numeral n] \<and> P (pred_numeral n))"
  by (simp add: numeral_eq_Suc)

lemma budget_numeral:
  "budget e t0 T (numeral n) =
     budget e t0 T (pred_numeral n) -
       (clock e (t0 + 2 * pred_numeral n + 1) - clock e (t0 + 2 * pred_numeral n))"
  by (simp add: numeral_eq_Suc)

lemmas poll_eval =
  all_falsy_def within_budget_def no_drift_def before_deadline_def falsy_def always_falsy_def
  timeout_of_def errorMsg_of_def options_or_empty_def w0_def list_all_upt_numeral budget_numeral


lemma waitFor_rejected:
  "conditionFn e (calls w) = Rejected r \<Longrightarrow>
   waitFor e opts w = Some (Rejected r, \<lparr>ticks = Suc (ticks w), calls = Suc (calls w)\<rparr>)"
  by (subst waitFor.simps, cases w) simp

lemma waitFor_truthy:
  "conditionFn e (calls w) = Fulfilled v \<Longrightarrow> truthy v \<Longrightarrow>
   waitFor e opts w =
     Some (Fulfilled JUndefined, \<lparr>ticks = Suc (ticks w), calls = Suc (calls w)\<rparr>)"
  by (subst waitFor.simps, cases w) simp

lemma waitFor_falsy:
  "falsy (conditionFn e (calls w)) \<Longrightarrow>
   waitFor e opts w =
     (if timeout_of opts - (clock e (Suc (ticks w)) - clock e (ticks w)) \<le> 0
      then Some (Rejected (JError (errorMsg_of opts)), after w 1)
      else waitFor e
             (retry_options opts
                (timeout_of opts - (clock e (Suc (ticks w)) - clock e (ticks w))))
             (after w 1))"
  by (subst waitFor.simps, cases w)
     (simp add: falsy_def after_def retry_options_def Let_def split: promise.splits)

lemma waitFor_normal: "waitFor e opts w = waitFor e (retry_options opts (timeout_of opts)) w"
  by (subst waitFor.simps, subst (2) waitFor.simps) simp

lemma waitFor_run:
  "all_falsy e (calls w) k \<Longrightarrow> within_budget e (ticks w) (timeout_of opts) k \<Longrightarrow>
   waitFor e opts w =
     waitFor e (retry_options opts (budget e (ticks w) (timeout_of opts) k)) (after w k)"
proof (induction k)
  case 0
  show ?case using waitFor_normal [of e opts w] by simp
next
  case (Suc k)
  let ?T = "timeout_of opts"
  from Suc.prems have f: "falsy (conditionFn e (calls (after w k)))"
    and b: "0 < budget e (ticks w) ?T (Suc k)"
    by (simp_all add: all_falsy_Suc within_budget_Suc)
  from Suc.prems Suc.IH
  have "waitFor e opts w = waitFor e (retry_options opts (budget e (ticks w) ?T k)) (after w k)"
    by (simp add: all_falsy_Suc within_budget_Suc)
  also have "\<dots> = waitFor e (retry_options opts (budget e (ticks w) ?T (Suc k))) (after w (Suc k))"
    using b by (subst waitFor_falsy [OF f]) simp
  finally show ?case .
qed



lemma waitFor_invokes:
  assumes "waitFor e opts w = Some rw"
  shows "calls w < calls (snd rw)"
proof (rule waitFor.raw_induct [where P = "\<lambda>e opts w rw. calls w < calls (snd rw)", OF _ assms],
    goal_cases)
  case (1 f e opts w rw)
  have IH: "calls w' < calls (snd y)" if "f e' opts' w' = Some y" for e' opts' w' y
    using that by (rule "1"(1))
  from "1"(2) show ?case
    by (cases w) (auto simp: Let_def split: promise.splits if_splits dest!: IH)
qed

text \<open>
  A sequence whose first \<open>k\<close> attempts resolve falsy and leave a positive
  \<^verbatim>\<open>remaining\<close> continues as the call \<^verbatim>\<open>waitFor(conditionFn, {timeout: remaining, errorMsg: errorMsg})\<close>
  of the \<open>k\<close>-th retry, after \<open>2 * k\<close> clock readings and \<open>k\<close> invocations: this is
  \<open>waitFor_run\<close>. In the statements below the invocations are counted from \<open>calls w\<close>,
  so that the \<open>(k + 1)\<close>-th invocation is number \<open>calls w + k\<close>.
\<close>

subsection \<open>The deadline\<close>




subsection \<open>Rejection and success of the polling function\<close>

text \<open>
  C2. If the \<open>(k + 1)\<close>-th invocation of \<^verbatim>\<open>conditionFn\<close> is rejected, all \<open>k\<close>
  invocations before it having resolved falsy within the budget, then \<^verbatim>\<open>waitFor\<close>
  is rejected with the same reason, as it is, and \<^verbatim>\<open>conditionFn\<close> has been invoked
  exactly \<open>k + 1\<close> times: a rejection is not retried.
\<close>

theorem waitFor_rejection_is_final:
  assumes "all_falsy e (calls w) k"
    and "within_budget e (ticks w) (timeout_of opts) k"
    and "conditionFn e (calls w + k) = Rejected reason"
  shows "waitFor e opts w =
           Some (Rejected reason, \<lparr>ticks = ticks w + 2 * k + 1, calls = calls w + k + 1\<rparr>)"
proof -
  have "waitFor e opts w =
        waitFor e (retry_options opts (budget e (ticks w) (timeout_of opts) k)) (after w k)"
    using assms(1,2) by (rule waitFor_run)
  also have "\<dots> = Some (Rejected reason, \<lparr>ticks = Suc (ticks (after w k)), calls = Suc (calls (after w k))\<rparr>)"
    using assms(3) by (intro waitFor_rejected) simp
  finally show ?thesis by simp
qed

text \<open>With the default options, a rejection at the third invocation.\<close>

theorem waitFor_rejection_is_final_witness:
  "all_falsy env_reject3 (calls w0) 2 \<and>
   within_budget env_reject3 (ticks w0) (timeout_of None) 2 \<and>
   conditionFn env_reject3 (calls w0 + 2) = Rejected (JStr ''boom'') \<and>
   waitFor env_reject3 None w0 = Some (Rejected (JStr ''boom''), \<lparr>ticks = 5, calls = 3\<rparr>)"
  using waitFor_rejection_is_final [of env_reject3 w0 2 None "JStr ''boom''"]
  by (simp add: poll_eval env_reject3_def)

text \<open>
  C8. If the \<open>(k + 1)\<close>-th invocation of \<^verbatim>\<open>conditionFn\<close> resolves to a truthy value,
  all \<open>k\<close> invocations before it having resolved falsy within the budget, then
  \<^verbatim>\<open>waitFor\<close> is fulfilled with \<^verbatim>\<open>undefined\<close> and \<^verbatim>\<open>conditionFn\<close>
  has been invoked exactly \<open>k + 1\<close> times.
\<close>

theorem waitFor_truthy_stops:
  assumes "all_falsy e (calls w) k"
    and "within_budget e (ticks w) (timeout_of opts) k"
    and "conditionFn e (calls w + k) = Fulfilled v" and "truthy v"
  shows "waitFor e opts w =
           Some (Fulfilled JUndefined, \<lparr>ticks = ticks w + 2 * k + 1, calls = calls w + k + 1\<rparr>)"
proof -
  have "waitFor e opts w =
        waitFor e (retry_options opts (budget e (ticks w) (timeout_of opts) k)) (after w k)"
    using assms(1,2) by (rule waitFor_run)
  also have "\<dots> = Some (Fulfilled JUndefined, \<lparr>ticks = Suc (ticks (after w k)), calls = Suc (calls (after w k))\<rparr>)"
    using assms(3,4) by (intro waitFor_truthy [where v = v]) simp_all
  finally show ?thesis by simp
qed

text \<open>With the default options, \<^verbatim>\<open>true\<close> at the third invocation.\<close>

theorem waitFor_truthy_stops_witness:
  "all_falsy env_true3 (calls w0) 2 \<and>
   within_budget env_true3 (ticks w0) (timeout_of None) 2 \<and>
   conditionFn env_true3 (calls w0 + 2) = Fulfilled (JBool True) \<and> truthy (JBool True) \<and>
   waitFor env_true3 None w0 = Some (Fulfilled JUndefined, \<lparr>ticks = 5, calls = 3\<rparr>)"
  using waitFor_truthy_stops [of env_true3 w0 2 None "JBool True"]
  by (simp add: poll_eval env_true3_def)

subsection \<open>The first attempt\<close>




text \<open>
  C9. Whatever \<^verbatim>\<open>options\<close> is, hence for every timeout, a call of \<^verbatim>\<open>waitFor\<close>
  that settles has invoked \<^verbatim>\<open>conditionFn\<close> at least once; and if the first
  invocation resolves to a truthy value, the call is fulfilled after that one invocation
  and the one clock reading for \<^verbatim>\<open>start\<close>, with no test of the budget.
\<close>

theorem waitFor_first_attempt_unconditional:
  "(\<forall>r w'. waitFor e opts w = Some (r, w') \<longrightarrow> calls w < calls w') \<and>
   (\<forall>v. conditionFn e (calls w) = Fulfilled v \<and> truthy v \<longrightarrow>
      waitFor e opts w =
        Some (Fulfilled JUndefined, \<lparr>ticks = Suc (ticks w), calls = Suc (calls w)\<rparr>))"
  using waitFor_invokes [of e opts w] waitFor_truthy [of e w _ opts] by auto

text \<open>A negative timeout and a poller that is ready at once.\<close>

theorem waitFor_first_attempt_unconditional_witness:
  "conditionFn env_true1 (calls w0) = Fulfilled (JStr ''ready'') \<and> truthy (JStr ''ready'') \<and>
   waitFor env_true1 (Some \<lparr>timeout = Some (- 5), errorMsg = None\<rparr>) w0 =
     Some (Fulfilled JUndefined, \<lparr>ticks = 1, calls = 1\<rparr>) \<and>
   calls w0 < calls \<lparr>ticks = 1, calls = 1\<rparr>"
  using waitFor_first_attempt_unconditional
    [of env_true1 "Some \<lparr>timeout = Some (- 5), errorMsg = None\<rparr>" w0]
  by (simp add: env_true1_def w0_def)

subsection \<open>The default error message\<close>

text \<open>
  C10. If \<^verbatim>\<open>options.errorMsg\<close> is the empty string and the budget is exhausted at
  the \<open>(k + 1)\<close>-th falsy result, the call is rejected with the message
  \<^verbatim>\<open>Timeout\<close>; a timeout of 0 in the options is the timeout in force, not 1000.
\<close>

theorem waitFor_empty_errorMsg:
  assumes "errorMsg opts = Some []"
    and "all_falsy e (calls w) (Suc k)"
    and "within_budget e (ticks w) (timeout_of (Some opts)) k"
    and "budget e (ticks w) (timeout_of (Some opts)) (Suc k) \<le> 0"
  shows "waitFor e (Some opts) w =
           Some (Rejected (JError ''Timeout''),
                 \<lparr>ticks = ticks w + 2 * k + 2, calls = calls w + k + 1\<rparr>) \<and>
         (timeout opts = Some 0 \<longrightarrow> timeout_of (Some opts) = 0)"
proof -
  let ?T = "timeout_of (Some opts)"
  from assms(1) have msg: "errorMsg_of (Some opts) = ''Timeout''"
    by (simp add: errorMsg_of_def options_or_empty_def)
  from assms(2) have af: "all_falsy e (calls w) k"
    and f: "falsy (conditionFn e (calls (after w k)))"
    by (simp_all add: all_falsy_Suc)
  have "waitFor e (Some opts) w =
        waitFor e (retry_options (Some opts) (budget e (ticks w) ?T k)) (after w k)"
    using af assms(3) by (rule waitFor_run)
  also have "\<dots> = Some (Rejected (JError ''Timeout''), after w (Suc k))"
    using assms(4) msg by (subst waitFor_falsy [OF f]) simp
  finally have "waitFor e (Some opts) w =
      Some (Rejected (JError ''Timeout''), \<lparr>ticks = ticks w + 2 * k + 2, calls = calls w + k + 1\<rparr>)"
    by (simp add: after_def)
  then show ?thesis by (simp add: timeout_of_def options_or_empty_def)
qed

text \<open>
  A timeout of 2 ms exhausted at the second result, and a timeout of 0 exhausted at the
  first, one millisecond after the start.
\<close>

theorem waitFor_empty_errorMsg_witness:
  "errorMsg \<lparr>timeout = Some 2, errorMsg = Some []\<rparr> = Some [] \<and>
   all_falsy env_ticking (calls w0) (Suc 1) \<and>
   within_budget env_ticking (ticks w0)
     (timeout_of (Some \<lparr>timeout = Some 2, errorMsg = Some []\<rparr>)) 1 \<and>
   budget env_ticking (ticks w0)
     (timeout_of (Some \<lparr>timeout = Some 2, errorMsg = Some []\<rparr>)) (Suc 1) \<le> 0 \<and>
   waitFor env_ticking (Some \<lparr>timeout = Some 2, errorMsg = Some []\<rparr>) w0 =
     Some (Rejected (JError ''Timeout''), \<lparr>ticks = 4, calls = 2\<rparr>) \<and>
   timeout \<lparr>timeout = Some 0, errorMsg = Some []\<rparr> = Some 0 \<and>
   all_falsy env_ticking (calls w0) (Suc 0) \<and>
   within_budget env_ticking (ticks w0)
     (timeout_of (Some \<lparr>timeout = Some 0, errorMsg = Some []\<rparr>)) 0 \<and>
   budget env_ticking (ticks w0)
     (timeout_of (Some \<lparr>timeout = Some 0, errorMsg = Some []\<rparr>)) (Suc 0) \<le> 0 \<and>
   waitFor env_ticking (Some \<lparr>timeout = Some 0, errorMsg = Some []\<rparr>) w0 =
     Some (Rejected (JError ''Timeout''), \<lparr>ticks = 2, calls = 1\<rparr>) \<and>
   timeout_of (Some \<lparr>timeout = Some 0, errorMsg = Some []\<rparr>) = 0"
  using waitFor_empty_errorMsg [of "\<lparr>timeout = Some 2, errorMsg = Some []\<rparr>" env_ticking w0 1]
    waitFor_empty_errorMsg [of "\<lparr>timeout = Some 0, errorMsg = Some []\<rparr>" env_ticking w0 0]
  by (simp add: poll_eval env_ticking_def)

section \<open>The selector-path resolver\<close>

subsection \<open>Unfolding one call\<close>

lemma dollar_leaf:
  "\<forall>items. path \<noteq> PArr items \<Longrightarrow>
   dollar D path c lbl s =
     (case buildSelector D lbl path of
        Inl r \<Rightarrow> (Throws r, s)
      | Inr selector \<Rightarrow>
          (Returns (map_promise Els
             (findAllByCssSelector D s (case c of None \<Rightarrow> Cmd | Some x \<Rightarrow> x) selector)), Suc s))"
  by (subst dollar.simps, cases path) (simp_all add: Let_def)

lemma dollar_context_default:
  "dollar D path (Some (case c of None \<Rightarrow> Cmd | Some x \<Rightarrow> x)) lbl s = dollar D path c lbl s"
  by (subst dollar.simps, subst (2) dollar.simps) (simp add: Let_def)

lemma dollar_array:
  "dollar D (PArr (firstPart # index # rest)) c lbl s =
     (case dollar D firstPart c lbl s of
        (Returns (Fulfilled els), s1) \<Rightarrow>
          (case index of
             PUndefined \<Rightarrow> (Returns (Fulfilled els), s1)
           | PNum i \<Rightarrow>
               (case at_index els i of
                  None \<Rightarrow> (Returns (Rejected (JError (too_few i (extend_label lbl firstPart) els))), s1)
                | Some e \<Rightarrow>
                    if rest = [] then (Returns (Fulfilled (El e)), s1)
                    else in_then (dollar D (PArr rest) (Some (Element e)) (extend_label lbl firstPart) s1))
           | _ \<Rightarrow> (Unmodelled, s1))
      | (c', s1) \<Rightarrow> (c', s1))"
  by (subst dollar.simps)
     (auto simp: item_def Let_def dollar_context_default
        split: prod.splits call.splits promise.splits pathv.splits option.splits)

lemma dollar_singleton:
  "dollar D (PArr [firstPart]) c lbl s = dollar D firstPart c lbl s"
  by (subst dollar.simps)
     (simp add: item_def Let_def dollar_context_default split: prod.splits call.splits promise.splits)

lemma dollar_empty:
  "dollar D (PArr []) c lbl s = dollar D PUndefined c lbl s"
  by (subst dollar.simps)
     (simp add: item_def Let_def dollar_context_default split: prod.splits call.splits promise.splits)

text \<open>Two lookups on the example page.\<close>

lemma D0_a: "dollar D0 (PStr ''a'') None PUndefined 0 = (Returns (Fulfilled (Els [10, 11, 12, 13, 14])), 1)"
  by (simp add: dollar_leaf D0_def)

lemma D0_b: "dollar D0 (PStr ''b'') (Some (Element 12)) (PStr ''a'') 1 = (Returns (Fulfilled (Els [20, 21])), 2)"
  by (simp add: dollar_leaf D0_def)

subsection \<open>A path without an index\<close>

text \<open>
  C6. When the second element of a path array is absent (\<^verbatim>\<open>undefined\<close>, or the array
  has one element only), \<^verbatim>\<open>_$\<close> gives what resolving \<^verbatim>\<open>firstPart\<close> gives,
  unchanged; the elements after the index are ignored.
\<close>

theorem dollar_index_absent:
  "dollar D (PArr (firstPart # PUndefined # rest)) c lbl s = dollar D firstPart c lbl s \<and>
   dollar D (PArr [firstPart]) c lbl s = dollar D firstPart c lbl s"
  by (simp add: dollar_array dollar_singleton split: prod.splits call.splits promise.splits)

subsection \<open>A path with an index\<close>

text \<open>
  C3, as amended. When \<^verbatim>\<open>firstPart\<close> resolves to an array of elements and the index is a number
  not below the length of that array, \<^verbatim>\<open>_$\<close> is rejected with an error whose
  message is \<^verbatim>\<open>Expected at least N elements at region "<label>", but only found M.\<close>
  where \<open>N\<close> is the index plus one, the label is the context label extended with
  \<^verbatim>\<open>firstPart\<close> (joined with a dot when there is a label already) and \<open>M\<close> is the
  length of the array.
\<close>

theorem dollar_index_out_of_range:
  assumes "dollar D firstPart c lbl s = (Returns (Fulfilled (Els els)), s1)"
    and "int (length els) \<le> index"
  shows "dollar D (PArr (firstPart # PNum index # rest)) c lbl s =
     (Returns (Rejected (JError
        (''Expected at least '' @ number_string (index + 1) @ '' elements at region \"'' @
         (if truthy_path lbl then toString lbl @ ''.'' @ toString firstPart
          else toString firstPart) @
         ''\", but only found '' @ digits (length els) @ ''.''))), s1)"
  using assms by (simp add: dollar_array too_few_def extend_label_def del: digits.simps)

text \<open>
  The path \<^verbatim>\<open>['a', 7]\<close> against five elements, without a label, and the path
  \<^verbatim>\<open>['b', 5]\<close> against two elements under the label \<^verbatim>\<open>a\<close>.
\<close>

theorem dollar_index_out_of_range_witness:
  "dollar D0 (PStr ''a'') None PUndefined 0 = (Returns (Fulfilled (Els [10, 11, 12, 13, 14])), 1) \<and>
   int (length [10, 11, 12, 13, 14 :: nat]) \<le> 7 \<and>
   dollar D0 (PArr [PStr ''a'', PNum 7]) None PUndefined 0 =
     (Returns (Rejected (JError
        ''Expected at least 8 elements at region \"a\", but only found 5.'')), 1) \<and>
   dollar D0 (PStr ''b'') (Some (Element 12)) (PStr ''a'') 1 = (Returns (Fulfilled (Els [20, 21])), 2) \<and>
   int (length [20, 21 :: nat]) \<le> 5 \<and>
   dollar D0 (PArr [PStr ''b'', PNum 5]) (Some (Element 12)) (PStr ''a'') 1 =
     (Returns (Rejected (JError
        ''Expected at least 6 elements at region \"a.b\", but only found 2.'')), 2)"
  using dollar_index_out_of_range [OF D0_a, of 7 "[]"]
    dollar_index_out_of_range [OF D0_b, of 5 "[]"] D0_a D0_b
  by (simp add: number_string_def)

text \<open>
  C3 as stated fails when \<^verbatim>\<open>firstPart\<close> is itself a path array that ends in an
  index: it resolves to one element, not to an array, so that \<^verbatim>\<open>els[index]\<close> is
  missing for every index and \<^verbatim>\<open>els.length\<close> is \<^verbatim>\<open>undefined\<close>. For the
  path \<^verbatim>\<open>[['a', 2], 5]\<close> the message ends in \<^verbatim>\<open>only found undefined.\<close>,
  which is not the number of elements found.
\<close>

theorem dollar_index_out_of_range_counterexample:
  "dollar D0 (PArr [PStr ''a'', PNum 2]) None PUndefined 0 = (Returns (Fulfilled (El 12)), 1) \<and>
   dollar D0 (PArr [PArr [PStr ''a'', PNum 2], PNum 5]) None PUndefined 0 =
     (Returns (Rejected (JError
        ''Expected at least 6 elements at region \"a,2\", but only found undefined.'')), 1) \<and>
   dollar D0 (PArr [PArr [PStr ''a'', PNum 2], PNum 5]) None PUndefined 0 \<noteq>
     (Returns (Rejected (JError
        ''Expected at least 6 elements at region \"a,2\", but only found 1.'')), 1)"
proof -
  have inner: "dollar D0 (PArr [PStr ''a'', PNum 2]) None PUndefined 0 =
      (Returns (Fulfilled (El 12)), 1)"
    using D0_a by (simp add: dollar_array)
  have outer: "dollar D0 (PArr [PArr [PStr ''a'', PNum 2], PNum 5]) None PUndefined 0 =
      (Returns (Rejected (JError
        ''Expected at least 6 elements at region \"a,2\", but only found undefined.'')), 1)"
    using inner by (simp add: dollar_array too_few_def extend_label_def number_string_def)
  from inner outer show ?thesis by simp
qed

text \<open>
  C5, as amended. When \<^verbatim>\<open>firstPart\<close> resolves to an array of elements, the index is
  a number within the array and no element follows the index, \<^verbatim>\<open>_$\<close> is fulfilled
  with the selected element itself, not with an array that holds it.
\<close>

theorem dollar_index_terminal:
  assumes "dollar D firstPart c lbl s = (Returns (Fulfilled (Els els)), s1)"
    and "0 \<le> index" and "index < int (length els)"
  shows "dollar D (PArr [firstPart, PNum index]) c lbl s =
           (Returns (Fulfilled (El (els ! nat index))), s1)"
  using assms by (simp add: dollar_array)

text \<open>The path \<^verbatim>\<open>['a', 2]\<close> against five elements.\<close>

theorem dollar_index_terminal_witness:
  "dollar D0 (PStr ''a'') None PUndefined 0 = (Returns (Fulfilled (Els [10, 11, 12, 13, 14])), 1) \<and>
   (0::int) \<le> 2 \<and> 2 < int (length [10, 11, 12, 13, 14 :: nat]) \<and>
   dollar D0 (PArr [PStr ''a'', PNum 2]) None PUndefined 0 = (Returns (Fulfilled (El 12)), 1)"
  using dollar_index_terminal [OF D0_a, of 2] D0_a by simp

text \<open>
  C5 as stated fails: for the path \<^verbatim>\<open>['a', 2]\<close> the result is the element, which
  is not the one-element array, since the code has \<^verbatim>\<open>return el;\<close>.
\<close>

theorem dollar_index_terminal_counterexample:
  "dollar D0 (PStr ''a'') None PUndefined 0 = (Returns (Fulfilled (Els [10, 11, 12, 13, 14])), 1) \<and>
   dollar D0 (PArr [PStr ''a'', PNum 2]) None PUndefined 0 = (Returns (Fulfilled (El 12)), 1) \<and>
   dollar D0 (PArr [PStr ''a'', PNum 2]) None PUndefined 0 \<noteq> (Returns (Fulfilled (Els [12])), 1)"
  using D0_a by (simp add: dollar_array)

text \<open>
  C7. When \<^verbatim>\<open>firstPart\<close> resolves to an array of elements, the index is a number
  within the array and more elements follow the index, \<^verbatim>\<open>_$\<close> resolves the rest
  of the path with the selected element as context and with the context label extended with
  \<^verbatim>\<open>firstPart\<close>; the call is made inside a \<^verbatim>\<open>then\<close> callback.
\<close>

theorem dollar_descends:
  assumes "dollar D firstPart c lbl s = (Returns (Fulfilled (Els els)), s1)"
    and "0 \<le> index" and "index < int (length els)" and "rest \<noteq> []"
  shows "dollar D (PArr (firstPart # PNum index # rest)) c lbl s =
           in_then (dollar D (PArr rest) (Some (Element (els ! nat index)))
                      (if truthy_path lbl then PStr (toString lbl @ ''.'' @ toString firstPart)
                       else firstPart) s1)"
  using assms by (simp add: dollar_array extend_label_def)

text \<open>
  The path \<^verbatim>\<open>['a', 2, 'b']\<close>: the region \<^verbatim>\<open>b\<close> is looked up in the third
  element of \<^verbatim>\<open>a\<close>, where it has two elements, not in the page, where it has three.
\<close>

theorem dollar_descends_witness:
  "dollar D0 (PStr ''a'') None PUndefined 0 = (Returns (Fulfilled (Els [10, 11, 12, 13, 14])), 1) \<and>
   (0::int) \<le> 2 \<and> 2 < int (length [10, 11, 12, 13, 14 :: nat]) \<and> [PStr ''b''] \<noteq> [] \<and>
   dollar D0 (PArr [PStr ''a'', PNum 2, PStr ''b'']) None PUndefined 0 =
     in_then (dollar D0 (PArr [PStr ''b'']) (Some (Element 12)) (PStr ''a'') 1) \<and>
   dollar D0 (PArr [PStr ''a'', PNum 2, PStr ''b'']) None PUndefined 0 =
     (Returns (Fulfilled (Els [20, 21])), 2) \<and>
   dollar D0 (PStr ''b'') None PUndefined 1 = (Returns (Fulfilled (Els [20, 21, 30])), 2)"
  using dollar_descends [OF D0_a, of 2 "[PStr ''b'']"] D0_a D0_b
  by (simp add: dollar_singleton) (simp add: dollar_leaf D0_def)

end
